theory Spec2Isabelle
  imports Complex_Main
begin

section \<open>Values the program computes with\<close>

subsection \<open>Decimal numbers\<close>

text \<open>
  Prices are Python \<^verbatim>\<open>decimal.Decimal\<close> values: a signed coefficient and an
  exponent, standing for \<open>coefficient * 10 ^ exponent\<close>. Only finite values are
  modelled (no NaN, no infinity), the sign of a zero is not kept, and exponents are
  taken to stay inside the context's \<open>Emin\<close>/\<open>Emax\<close>. Arithmetic runs in the
  default context: 28 significant digits, rounding half to even.
\<close>

datatype Decimal = Dec (coefficient: int) (exponent: int)

definition dec_val :: "Decimal \<Rightarrow> rat" where
  "dec_val x = of_int (coefficient x) * 10 powi (exponent x)"

text \<open>\<^verbatim>\<open>len(str(n))\<close> for a natural number \<open>n\<close>.\<close>

fun ndigits :: "nat \<Rightarrow> nat" where
  "ndigits n = (if n < 10 then 1 else Suc (ndigits (n div 10)))"

definition digits_of :: "Decimal \<Rightarrow> nat" where
  "digits_of x = ndigits (nat \<bar>coefficient x\<bar>)"

definition prec :: nat where
  "prec = 28"

text \<open>
  Dropping the last \<open>k\<close> digits of a coefficient, rounding half to even on the
  magnitude (\<^verbatim>\<open>_round_half_even\<close>).
\<close>

definition round_half_even :: "int \<Rightarrow> nat \<Rightarrow> int" where
  "round_half_even c k =
     (let a = \<bar>c\<bar>; q = a div 10 ^ k; r = a mod 10 ^ k;
          q' = (if 10 ^ k < 2 * r \<or> (2 * r = 10 ^ k \<and> odd q) then q + 1 else q)
      in sgn c * q')"

text \<open>
  \<^verbatim>\<open>Decimal._fix\<close>: a coefficient of more than \<open>prec\<close> digits is rounded to
  \<open>prec\<close> digits; when rounding up carries into one more digit, the trailing zero is
  dropped and the exponent raised once more.
\<close>

definition dec_fix :: "Decimal \<Rightarrow> Decimal" where
  "dec_fix x =
     (if coefficient x = 0 \<or> digits_of x \<le> prec then x
      else
        (let k = digits_of x - prec; c = round_half_even (coefficient x) k
         in if prec < ndigits (nat \<bar>c\<bar>) then Dec (c div 10) (exponent x + int k + 1)
            else Dec c (exponent x + int k)))"

text \<open>The sum before rounding, at the smaller of the two exponents.\<close>

definition dec_exact_sum :: "Decimal \<Rightarrow> Decimal \<Rightarrow> Decimal" where
  "dec_exact_sum x y =
     (let e = min (exponent x) (exponent y)
      in Dec (coefficient x * 10 ^ nat (exponent x - e)
              + coefficient y * 10 ^ nat (exponent y - e)) e)"

text \<open>\<^verbatim>\<open>Decimal.__add__\<close> and \<^verbatim>\<open>Decimal.__sub__\<close>; an \<^verbatim>\<open>int\<close> operand is
  converted exactly, with exponent 0.\<close>

definition dec_add :: "Decimal \<Rightarrow> Decimal \<Rightarrow> Decimal" where
  "dec_add x y = dec_fix (dec_exact_sum x y)"

definition dec_negate :: "Decimal \<Rightarrow> Decimal" where
  "dec_negate x = Dec (- coefficient x) (exponent x)"

definition dec_sub :: "Decimal \<Rightarrow> Decimal \<Rightarrow> Decimal" where
  "dec_sub x y = dec_add x (dec_negate y)"

definition Decimal_of_int :: "int \<Rightarrow> Decimal" where
  "Decimal_of_int i = Dec i 0"

definition dec_add_int :: "Decimal \<Rightarrow> int \<Rightarrow> Decimal" where
  "dec_add_int x i = dec_add x (Decimal_of_int i)"

definition dec_sub_int :: "Decimal \<Rightarrow> int \<Rightarrow> Decimal" where
  "dec_sub_int x i = dec_sub x (Decimal_of_int i)"

text \<open>\<^verbatim>\<open>x > 0\<close> for a Decimal \<open>x\<close>.\<close>

definition dec_positive :: "Decimal \<Rightarrow> bool" where
  "dec_positive x = (0 < coefficient x)"

subsection \<open>Aware datetimes\<close>

text \<open>
  A timezone-aware \<^verbatim>\<open>datetime\<close>: the wall-clock reading in microseconds (counted
  from a midnight) and the UTC offset of its \<^verbatim>\<open>tzinfo\<close> in microseconds. Aware
  datetimes compare by instant, that is wall clock minus offset.
\<close>

record datetime =
  wall :: int
  utcoffset :: int

definition instant :: "datetime \<Rightarrow> int" where
  "instant t = wall t - utcoffset t"

definition dt_less :: "datetime \<Rightarrow> datetime \<Rightarrow> bool" where
  "dt_less a b = (instant a < instant b)"

definition dt_le :: "datetime \<Rightarrow> datetime \<Rightarrow> bool" where
  "dt_le a b = (instant a \<le> instant b)"

definition microseconds_per_day :: int where
  "microseconds_per_day = 86400000000"

text \<open>\<^verbatim>\<open>timedelta(hours=h, minutes=m)\<close> in microseconds.\<close>

definition timedelta :: "int \<Rightarrow> int \<Rightarrow> int" where
  "timedelta h m = (h * 60 + m) * 60 * 1000000"

definition dt_minus :: "datetime \<Rightarrow> int \<Rightarrow> datetime" where
  "dt_minus t d = t\<lparr>wall := wall t - d\<rparr>"

text \<open>\<^verbatim>\<open>t.replace(hour=h, minute=m, second=0, microsecond=0)\<close>: the same date
  and the same \<^verbatim>\<open>tzinfo\<close>, the time of day replaced.\<close>

definition replace_time :: "datetime \<Rightarrow> int \<Rightarrow> int \<Rightarrow> datetime" where
  "replace_time t h m =
     t\<lparr>wall := (wall t div microseconds_per_day) * microseconds_per_day + timedelta h m\<rparr>"

definition time_of_day :: "datetime \<Rightarrow> int" where
  "time_of_day t = wall t mod microseconds_per_day"

section \<open>The broker client's data\<close>

text \<open>
  The enumerations and order objects of the broker client library, with the members
  the program uses; every other member of an enumeration is one further constructor.
\<close>

datatype OrderAction = BUY | SELL

datatype OrderType = LIMIT | MARKET | STOP | OtherOrderType

datatype OrderStatus = LIVE | OtherOrderStatus

datatype OrderTimeInForce = DAY | GTC

datatype PriceEffect = CREDIT | DEBIT

datatype InstrumentType = FUTURE | OtherInstrumentType

text \<open>A leg as \<^verbatim>\<open>build_leg(quantity, action)\<close> of a future makes it.\<close>

record Leg =
  leg_symbol :: string
  leg_quantity :: Decimal
  leg_action :: OrderAction

record NewOrder =
  time_in_force :: OrderTimeInForce
  order_type :: OrderType
  legs :: "Leg list"
  price :: "Decimal option"
  stop_trigger :: "Decimal option"
  price_effect :: PriceEffect

record NewComplexOrder =
  trigger_order :: NewOrder
  orders :: "NewOrder list"

text \<open>An entry of \<^verbatim>\<open>account.get_positions\<close>.\<close>

record CurrentPosition =
  quantity_direction :: string
  instrument_type :: InstrumentType
  quantity :: Decimal
  symbol :: string
  underlying_symbol :: string

text \<open>An entry of \<^verbatim>\<open>account.get_live_orders\<close>.\<close>

record PlacedOrder =
  placed_order_type :: OrderType
  placed_status :: OrderStatus
  placed_id :: int

section \<open>Globals of the program\<close>

text \<open>The two keys of the \<^verbatim>\<open>timestamps\<close> dictionary, and the two tickers
  \<^verbatim>\<open>process_trade\<close> is called with.\<close>

datatype instrument = ES | NQ

text \<open>
  \<^verbatim>\<open>config\<close> as \<^verbatim>\<open>load_config\<close> fills it, and the contract symbols that
  \<^verbatim>\<open>set_ticker_symbols\<close> resolves. Handlers only read them. The key
  \<^verbatim>\<open>"LIVE"\<close> is the field \<open>CONFIG_LIVE\<close>, apart from the order status \<open>LIVE\<close>;
  the credentials of the broker and of the notification service are left out.
\<close>

record config =
  PAYLOAD_TOKEN :: string
  NARROW_NQ :: int
  MEDIUM_NQ :: int
  WIDE_NQ :: int
  NARROW_ES :: int
  MEDIUM_ES :: int
  WIDE_ES :: int
  BULLISH :: bool
  SIZE_ES :: int
  SIZE_NQ :: int
  TICKER_ES :: string
  TICKER_NQ :: string
  CONFIG_LIVE :: bool
  symbol_ES :: string
  symbol_NQ :: string

text \<open>The dictionary \<^verbatim>\<open>position_object\<close>.\<close>

record position =
  p_ticker :: instrument
  p_symbol_ticker :: string
  p_current_price :: Decimal
  p_stop_size :: int
  p_profit_size :: int
  p_order_action :: OrderAction
  p_size :: int

text \<open>
  The mutable globals: \<^verbatim>\<open>timestamps["ES"]\<close>, \<^verbatim>\<open>timestamps["NQ"]\<close> (no code adds
  or removes a key), \<^verbatim>\<open>in_position\<close>, \<^verbatim>\<open>is_live\<close> and \<^verbatim>\<open>is_bullish\<close>.
\<close>

record state =
  timestamps_ES :: "datetime list"
  timestamps_NQ :: "datetime list"
  in_position :: "position list"
  is_live :: bool
  is_bullish :: bool

text \<open>The globals as \<^verbatim>\<open>main\<close> sets them before the web server starts.\<close>

definition initial_state :: "config \<Rightarrow> state" where
  "initial_state cfg =
     \<lparr>timestamps_ES = [], timestamps_NQ = [], in_position = [],
      is_live = CONFIG_LIVE cfg, is_bullish = BULLISH cfg\<rparr>"

section \<open>Effects, exceptions and the broker's answers\<close>

text \<open>The texts sent through \<^verbatim>\<open>send_pushover_message\<close>, by the values they are
  formatted from.\<close>

datatype message =
    Entering OrderAction string Decimal int int int
  | Error_opening
  | Closing string string Decimal Decimal
  | Error_closing

text \<open>
  What a handler does to the outside world, in the order it does it. Log lines are
  left out. \<^verbatim>\<open>send_pushover_message\<close> and the broker's lookups
  (\<^verbatim>\<open>get_future\<close>, \<^verbatim>\<open>get_positions\<close>, \<^verbatim>\<open>get_live_orders\<close>,
  \<^verbatim>\<open>delete_order\<close>) are taken to return; the two order submissions, which the
  program wraps in \<^verbatim>\<open>try\<close>, may raise.
\<close>

datatype effect =
    Get_future string
  | Place_complex_order NewComplexOrder
  | Place_order NewOrder
  | Get_positions
  | Get_live_orders
  | Delete_order int
  | Pushover message
  | Sleep nat

datatype error = KeyError | ValueError | ConversionError

text \<open>
  The broker's answers during one handler run: whether
  \<^verbatim>\<open>place_complex_order\<close> returns, the list \<^verbatim>\<open>get_positions\<close> returns, and
  for the \<open>n\<close>-th closing round (counted from 0) the list \<^verbatim>\<open>get_live_orders\<close>
  returns and whether \<^verbatim>\<open>place_order\<close> returns.
\<close>

record broker =
  place_complex_order_ok :: bool
  get_positions :: "CurrentPosition list"
  get_live_orders :: "nat \<Rightarrow> PlacedOrder list"
  place_order_ok :: "nat \<Rightarrow> bool"

section \<open>The program\<close>

subsection \<open>Alert timestamps\<close>

definition clean_old_timestamps :: "datetime \<Rightarrow> state \<Rightarrow> state" where
  "clean_old_timestamps current_time s =
     (let time_threshold = dt_minus current_time (timedelta 1 30)
      in s\<lparr>timestamps_ES := filter (\<lambda>t. dt_less time_threshold t) (timestamps_ES s),
           timestamps_NQ := filter (\<lambda>t. dt_less time_threshold t) (timestamps_NQ s)\<rparr>)"

definition clear_timestamps :: "state \<Rightarrow> state" where
  "clear_timestamps s = s\<lparr>timestamps_ES := [], timestamps_NQ := []\<rparr>"

text \<open>\<^verbatim>\<open>timestamps[ticker].append(current_time)\<close>, for whatever the request holds
  as its ticker; \<open>None\<close> is the \<^verbatim>\<open>KeyError\<close> of a key other than the two.\<close>

definition append_timestamp :: "string option \<Rightarrow> datetime \<Rightarrow> state \<Rightarrow> state option" where
  "append_timestamp ticker current_time s =
     (if ticker = Some ''ES'' then Some (s\<lparr>timestamps_ES := timestamps_ES s @ [current_time]\<rparr>)
      else if ticker = Some ''NQ'' then Some (s\<lparr>timestamps_NQ := timestamps_NQ s @ [current_time]\<rparr>)
      else None)"

subsection \<open>The bracket order\<close>

text \<open>\<^verbatim>\<open>config[f"{stop_type.upper()}_{ticker}"]\<close>, for a stop type that passed the
  check of \<^verbatim>\<open>process_trade\<close>.\<close>

definition stop_size_of :: "config \<Rightarrow> string \<Rightarrow> instrument \<Rightarrow> int" where
  "stop_size_of cfg stop_type ticker =
     (if stop_type = ''Narrow'' then (case ticker of ES \<Rightarrow> NARROW_ES cfg | NQ \<Rightarrow> NARROW_NQ cfg)
      else if stop_type = ''Medium'' then (case ticker of ES \<Rightarrow> MEDIUM_ES cfg | NQ \<Rightarrow> MEDIUM_NQ cfg)
      else (case ticker of ES \<Rightarrow> WIDE_ES cfg | NQ \<Rightarrow> WIDE_NQ cfg))"

definition profit_multipliers :: "string \<Rightarrow> int" where
  "profit_multipliers stop_type =
     (if stop_type = ''Narrow'' then 3 else if stop_type = ''Medium'' then 5 else 7)"

definition size_of :: "config \<Rightarrow> instrument \<Rightarrow> int" where
  "size_of cfg ticker = (case ticker of ES \<Rightarrow> SIZE_ES cfg | NQ \<Rightarrow> SIZE_NQ cfg)"

definition symbol_of :: "config \<Rightarrow> instrument \<Rightarrow> string" where
  "symbol_of cfg ticker = (case ticker of ES \<Rightarrow> symbol_ES cfg | NQ \<Rightarrow> symbol_NQ cfg)"

definition ticker_of :: "config \<Rightarrow> instrument \<Rightarrow> string" where
  "ticker_of cfg ticker = (case ticker of ES \<Rightarrow> TICKER_ES cfg | NQ \<Rightarrow> TICKER_NQ cfg)"

definition take_profit_price :: "Decimal \<Rightarrow> int \<Rightarrow> OrderAction \<Rightarrow> Decimal" where
  "take_profit_price current_price profit_size order_action =
     (if order_action = BUY then dec_add_int current_price profit_size
      else dec_sub_int current_price profit_size)"

definition stop_loss_price :: "Decimal \<Rightarrow> int \<Rightarrow> OrderAction \<Rightarrow> Decimal" where
  "stop_loss_price current_price stop_size order_action =
     (if order_action = BUY then dec_sub_int current_price stop_size
      else dec_add_int current_price stop_size)"

text \<open>The order \<^verbatim>\<open>otoco_order\<close> that \<^verbatim>\<open>process_trade\<close> builds.\<close>

definition otoco_order ::
  "config \<Rightarrow> instrument \<Rightarrow> string \<Rightarrow> Decimal \<Rightarrow> OrderAction \<Rightarrow> NewComplexOrder" where
  "otoco_order cfg ticker stop_type current_price order_action =
     (let stop_size = stop_size_of cfg stop_type ticker;
          profit_size = stop_size * profit_multipliers stop_type;
          lots = size_of cfg ticker;
          opening_leg = \<lparr>leg_symbol = symbol_of cfg ticker, leg_quantity = Decimal_of_int lots,
                         leg_action = order_action\<rparr>;
          closing_leg = \<lparr>leg_symbol = symbol_of cfg ticker, leg_quantity = Decimal_of_int lots,
                         leg_action = (if order_action = BUY then SELL else BUY)\<rparr>;
          main_order = \<lparr>time_in_force = DAY, order_type = MARKET, legs = [opening_leg],
                        price = None, stop_trigger = None,
                        price_effect = (if order_action = BUY then DEBIT else CREDIT)\<rparr>;
          profit_order = \<lparr>time_in_force = GTC, order_type = LIMIT, legs = [closing_leg],
                          price = Some (take_profit_price current_price profit_size order_action),
                          stop_trigger = None,
                          price_effect = (if order_action = BUY then CREDIT else DEBIT)\<rparr>;
          stop_order = \<lparr>time_in_force = GTC, order_type = STOP, legs = [closing_leg],
                        price = None,
                        stop_trigger = Some (stop_loss_price current_price stop_size order_action),
                        price_effect = (if order_action = BUY then CREDIT else DEBIT)\<rparr>
      in \<lparr>trigger_order = main_order, orders = [profit_order, stop_order]\<rparr>)"

definition position_object ::
  "config \<Rightarrow> instrument \<Rightarrow> string \<Rightarrow> Decimal \<Rightarrow> OrderAction \<Rightarrow> position" where
  "position_object cfg ticker stop_type current_price order_action =
     \<lparr>p_ticker = ticker, p_symbol_ticker = symbol_of cfg ticker,
      p_current_price = current_price,
      p_stop_size = stop_size_of cfg stop_type ticker,
      p_profit_size = stop_size_of cfg stop_type ticker * profit_multipliers stop_type,
      p_order_action = order_action, p_size = size_of cfg ticker\<rparr>"

subsection \<open>Opening a position\<close>

text \<open>
  A handler returns the exception that left it, if any, the globals after it, and
  its effects. What was assigned before an exception stays assigned.
\<close>

definition process_trade ::
  "config \<Rightarrow> broker \<Rightarrow> instrument \<Rightarrow> string option \<Rightarrow> Decimal \<Rightarrow> OrderAction \<Rightarrow> state
     \<Rightarrow> error option \<times> state \<times> effect list" where
  "process_trade cfg br ticker stop_type current_price order_action s =
     (if in_position s = [] \<and> is_live s then
        (case stop_type of
           None \<Rightarrow> (Some ValueError, s, [])
         | Some st \<Rightarrow>
             if st \<notin> set [''Narrow'', ''Medium'', ''Wide''] then (Some ValueError, s, [])
             else
               (let otoco = otoco_order cfg ticker st current_price order_action;
                    submit = [Get_future (symbol_of cfg ticker), Place_complex_order otoco]
                in if place_complex_order_ok br then
                     (None,
                      (clear_timestamps s)
                        \<lparr>in_position :=
                           in_position s @ [position_object cfg ticker st current_price order_action]\<rparr>,
                      submit @
                        [Pushover (Entering order_action (ticker_of cfg ticker) current_price
                           (size_of cfg ticker) (stop_size_of cfg st ticker)
                           (stop_size_of cfg st ticker * profit_multipliers st)),
                         Sleep 1])
                   else (None, s, submit @ [Pushover Error_opening])))
      else (None, s, []))"

subsection \<open>Closing\<close>

definition cancel_live_orders :: "PlacedOrder list \<Rightarrow> state \<Rightarrow> effect list" where
  "cancel_live_orders working_orders s =
     (if is_live s then
        Get_live_orders #
        map (\<lambda>working_order. Delete_order (placed_id working_order))
          (filter (\<lambda>working_order.
             placed_order_type working_order \<in> set [STOP, LIMIT]
             \<and> placed_status working_order = LIVE) working_orders)
      else [])"

definition closing_order_of :: "string \<Rightarrow> CurrentPosition \<Rightarrow> NewOrder" where
  "closing_order_of direction pos =
     \<lparr>time_in_force = DAY, order_type = MARKET,
      legs = [\<lparr>leg_symbol = symbol pos, leg_quantity = quantity pos,
               leg_action = (if direction = ''Long'' then SELL else BUY)\<rparr>],
      price = None, stop_trigger = None,
      price_effect = (if direction = ''Long'' then CREDIT else DEBIT)\<rparr>"

text \<open>
  The loop of \<^verbatim>\<open>close_positions\<close> over the broker's positions, \<open>n\<close> closing
  rounds already done. The flag is \<open>False\<close> when a submission raised and the function
  returned from inside the loop.
\<close>

fun close_loop ::
  "broker \<Rightarrow> state \<Rightarrow> string \<Rightarrow> Decimal \<Rightarrow> nat \<Rightarrow> CurrentPosition list \<Rightarrow> bool \<times> effect list" where
  "close_loop br s direction current_price n [] = (True, [])"
| "close_loop br s direction current_price n (pos # rest) =
     (if quantity_direction pos = direction \<and> instrument_type pos = FUTURE
         \<and> dec_positive (quantity pos) then
        (let submit = cancel_live_orders (get_live_orders br n) s @
                      [Get_future (symbol pos), Place_order (closing_order_of direction pos)]
         in if place_order_ok br n then
              (case close_loop br s direction current_price (Suc n) rest of
                 (finished, effs) \<Rightarrow>
                   (finished,
                    submit @
                    [Pushover (Closing direction (underlying_symbol pos) current_price
                       (quantity pos))] @ effs))
            else (False, submit @ [Pushover Error_closing]))
      else close_loop br s direction current_price n rest)"

definition close_positions ::
  "broker \<Rightarrow> string \<Rightarrow> Decimal \<Rightarrow> state \<Rightarrow> state \<times> effect list" where
  "close_positions br direction current_price s =
     (if is_live s then
        (case close_loop br s direction current_price 0 (get_positions br) of
           (finished, effs) \<Rightarrow>
             if finished then (s\<lparr>in_position := []\<rparr>, Get_positions # effs @ [Sleep 1])
             else (s, Get_positions # effs))
      else (s, []))"

subsection \<open>The alert handlers\<close>

definition handle_bullish_alert ::
  "config \<Rightarrow> broker \<Rightarrow> string option \<Rightarrow> string option \<Rightarrow> string option \<Rightarrow> Decimal
     \<Rightarrow> datetime \<Rightarrow> datetime \<Rightarrow> datetime \<Rightarrow> bool \<Rightarrow> state
     \<Rightarrow> error option \<times> state \<times> effect list" where
  "handle_bullish_alert cfg br ticker alert_type stop_type current_price current_time
       forbidden_start forbidden_end bypass s =
     (if alert_type = Some ''Long'' then
        (case append_timestamp ticker current_time s of
           None \<Rightarrow> (Some KeyError, s, [])
         | Some s1 \<Rightarrow>
             (let s2 = clean_old_timestamps current_time s1
              in if ticker = Some ''ES''
                    \<and> ((timestamps_NQ s2 \<noteq> []
                          \<and> \<not> (dt_le forbidden_start current_time
                                \<and> dt_le current_time forbidden_end))
                        \<or> bypass) then
                   process_trade cfg br ES stop_type current_price BUY s2
                 else if ticker = Some ''NQ''
                    \<and> ((timestamps_ES s2 \<noteq> []
                          \<and> \<not> (dt_le forbidden_start current_time
                                \<and> dt_le current_time forbidden_end))
                        \<or> bypass) then
                   process_trade cfg br NQ stop_type current_price BUY s2
                 else (None, s2, [])))
      else if alert_type = Some ''Short'' \<and> in_position s \<noteq> [] then
        (case close_positions br ''Long'' current_price s of (s', effs) \<Rightarrow> (None, s', effs))
      else (None, s, []))"

definition handle_bearish_alert ::
  "config \<Rightarrow> broker \<Rightarrow> string option \<Rightarrow> string option \<Rightarrow> string option \<Rightarrow> Decimal
     \<Rightarrow> datetime \<Rightarrow> datetime \<Rightarrow> datetime \<Rightarrow> bool \<Rightarrow> state
     \<Rightarrow> error option \<times> state \<times> effect list" where
  "handle_bearish_alert cfg br ticker alert_type stop_type current_price current_time
       forbidden_start forbidden_end bypass s =
     (if alert_type = Some ''Short'' then
        (case append_timestamp ticker current_time s of
           None \<Rightarrow> (Some KeyError, s, [])
         | Some s1 \<Rightarrow>
             (let s2 = clean_old_timestamps current_time s1
              in if ticker = Some ''ES''
                    \<and> ((timestamps_NQ s2 \<noteq> []
                          \<and> \<not> (dt_le forbidden_start current_time
                                \<and> dt_le current_time forbidden_end))
                        \<or> bypass) then
                   process_trade cfg br ES stop_type current_price SELL s2
                 else if ticker = Some ''NQ''
                    \<and> ((timestamps_ES s2 \<noteq> []
                          \<and> \<not> (dt_le forbidden_start current_time
                                \<and> dt_le current_time forbidden_end))
                        \<or> bypass) then
                   process_trade cfg br NQ stop_type current_price SELL s2
                 else (None, s2, [])))
      else if alert_type = Some ''Long'' \<and> in_position s \<noteq> [] then
        (case close_positions br ''Short'' current_price s of (s', effs) \<Rightarrow> (None, s', effs))
      else (None, s, []))"

subsection \<open>The HTTP handlers\<close>

text \<open>
  The JSON body of a request, field by field as \<^verbatim>\<open>data.get\<close> reads it: \<open>None\<close>
  for a field that is missing. \<open>req_price\<close> is the result of
  \<^verbatim>\<open>Decimal(data.get('price'))\<close>, \<open>None\<close> when that conversion raises;
  \<open>req_bypass\<close> is the truth value of the field \<^verbatim>\<open>bypass\<close>.
\<close>

record request =
  req_payload_token :: "string option"
  req_ticker :: "string option"
  req_price :: "Decimal option"
  req_alert_type :: "string option"
  req_stop_type :: "string option"
  req_bypass :: bool

text \<open>How a handler ends: a response (status and body), or an exception that leaves
  the handler for the web framework.\<close>

datatype outcome = Response nat string | Raised error

definition handle_webhook ::
  "config \<Rightarrow> broker \<Rightarrow> datetime \<Rightarrow> request \<Rightarrow> state \<Rightarrow> outcome \<times> state \<times> effect list" where
  "handle_webhook cfg br now data s =
     (if req_payload_token data = Some (PAYLOAD_TOKEN cfg) \<and> is_live s then
        (case req_price data of
           None \<Rightarrow> (Raised ConversionError, s, [])
         | Some current_price \<Rightarrow>
             (let current_time = now;
                  forbidden_start = replace_time current_time 8 30;
                  forbidden_end = replace_time current_time 8 35
              in case (if is_bullish s then
                         handle_bullish_alert cfg br (req_ticker data) (req_alert_type data)
                           (req_stop_type data) current_price current_time
                           forbidden_start forbidden_end (req_bypass data) s
                       else
                         handle_bearish_alert cfg br (req_ticker data) (req_alert_type data)
                           (req_stop_type data) current_price current_time
                           forbidden_start forbidden_end (req_bypass data) s) of
                   (Some e, s', effs) \<Rightarrow> (Raised e, s', effs)
                 | (None, s', effs) \<Rightarrow> (Response 200 [], s', effs)))
      else (Response 200 [], s, []))"

definition handle_switch_bias ::
  "config \<Rightarrow> broker \<Rightarrow> request \<Rightarrow> state \<Rightarrow> outcome \<times> state \<times> effect list" where
  "handle_switch_bias cfg br data s =
     (if req_payload_token data = Some (PAYLOAD_TOKEN cfg) then
        (case close_positions br (if is_bullish s then ''Long'' else ''Short'')
                (Decimal_of_int 0) s of
           (s1, effs) \<Rightarrow>
             (let s2 = clear_timestamps s1;
                  s3 = s2\<lparr>is_bullish := \<not> is_bullish s2\<rparr>
              in (Response 200
                    (''Bot has been switched to '' @
                       (if is_bullish s3 then ''Bullish'' else ''Bearish'')),
                  s3, effs)))
      else (Response 403 ''Forbidden'', s, []))"

definition handle_switch_live_status ::
  "config \<Rightarrow> request \<Rightarrow> state \<Rightarrow> outcome \<times> state \<times> effect list" where
  "handle_switch_live_status cfg data s =
     (if req_payload_token data = Some (PAYLOAD_TOKEN cfg) then
        (let s1 = s\<lparr>is_live := \<not> is_live s\<rparr>
         in (Response 200
               (''Bot 'Is Live' status has been switched to '' @
                  (if is_live s1 then ''True'' else ''False'')),
             s1, []))
      else (Response 403 ''Forbidden'', s, []))"

subsection \<open>The reconciliation loop\<close>

text \<open>One round of the inner loop of \<^verbatim>\<open>main\<close>, its closing
  \<^verbatim>\<open>asyncio.sleep(15)\<close> included.\<close>

definition reconciliation_pass :: "broker \<Rightarrow> state \<Rightarrow> state \<times> effect list" where
  "reconciliation_pass br s =
     (if in_position s \<noteq> [] \<and> is_live s then
        (if get_positions br = [] then
           (s\<lparr>in_position := []\<rparr>,
            Get_positions # cancel_live_orders (get_live_orders br 0) s @ [Sleep 1, Sleep 15])
         else (s, [Get_positions, Sleep 15]))
      else (s, [Sleep 15]))"

subsection \<open>Runs of the whole program\<close>

text \<open>
  What can happen to the running program, each with the broker's answers and the
  clock reading it meets. A run handles one event after the other; events do not
  overlap.
\<close>

datatype event =
    Webhook broker datetime request
  | Switch_bias broker request
  | Switch_live_status request
  | Reconciliation broker

fun step :: "config \<Rightarrow> state \<Rightarrow> event \<Rightarrow> state" where
  "step cfg s (Webhook br now data) = fst (snd (handle_webhook cfg br now data s))"
| "step cfg s (Switch_bias br data) = fst (snd (handle_switch_bias cfg br data s))"
| "step cfg s (Switch_live_status data) = fst (snd (handle_switch_live_status cfg data s))"
| "step cfg s (Reconciliation br) = fst (reconciliation_pass br s)"

definition run :: "config \<Rightarrow> event list \<Rightarrow> state \<Rightarrow> state" where
  "run cfg evs s = foldl (step cfg) s evs"

text \<open>Whether an effect is the submission of an entry order, of a closing order, or
  the cancellation of a working order.\<close>

fun is_entry_attempt :: "effect \<Rightarrow> bool" where
  "is_entry_attempt (Place_complex_order otoco) = True"
| "is_entry_attempt e = False"

fun is_closing_order :: "effect \<Rightarrow> bool" where
  "is_closing_order (Place_order closing_order) = True"
| "is_closing_order e = False"

fun is_cancellation :: "effect \<Rightarrow> bool" where
  "is_cancellation (Delete_order i) = True"
| "is_cancellation e = False"

subsection \<open>Words for stating properties\<close>

text \<open>The position slot holds no entry or one.\<close>

definition single_slot :: "state \<Rightarrow> bool" where
  "single_slot s = (length (in_position s) \<le> 1)"

text \<open>The test of \<^verbatim>\<open>close_positions\<close> on a broker position: the requested
  direction, a future, a positive quantity.\<close>

definition closable :: "string \<Rightarrow> CurrentPosition \<Rightarrow> bool" where
  "closable direction pos =
     (quantity_direction pos = direction \<and> instrument_type pos = FUTURE
      \<and> dec_positive (quantity pos))"

text \<open>The working orders \<^verbatim>\<open>cancel_live_orders\<close> deletes.\<close>

definition cancellable :: "PlacedOrder \<Rightarrow> bool" where
  "cancellable working_order =
     ((placed_order_type working_order = STOP \<or> placed_order_type working_order = LIMIT)
      \<and> placed_status working_order = OrderStatus.LIVE)"

text \<open>A timestamp less than 90 minutes before \<open>now\<close>, and a clock reading from
  08:30:00 to 08:35:00 of its day, both ends included.\<close>

definition younger_than_90_minutes :: "datetime \<Rightarrow> datetime \<Rightarrow> bool" where
  "younger_than_90_minutes now t = (instant now - instant t < 90 * 60 * 1000000)"

definition in_blackout :: "datetime \<Rightarrow> bool" where
  "in_blackout now =
     ((8 * 60 + 30) * 60 * 1000000 \<le> time_of_day now
      \<and> time_of_day now \<le> (8 * 60 + 35) * 60 * 1000000)"

definition recognised_stop_type :: "string option \<Rightarrow> bool" where
  "recognised_stop_type stop_type =
     (stop_type = Some ''Narrow'' \<or> stop_type = Some ''Medium'' \<or> stop_type = Some ''Wide'')"


text \<open>An alert for one of the two tracked tickers, and in the direction of the
  current bias; the timestamp list of its own ticker and that of the other one.\<close>

definition tracked_ticker :: "request \<Rightarrow> bool" where
  "tracked_ticker data = (req_ticker data = Some ''ES'' \<or> req_ticker data = Some ''NQ'')"

definition with_the_bias :: "request \<Rightarrow> state \<Rightarrow> bool" where
  "with_the_bias data s =
     (req_alert_type data = Some (if is_bullish s then ''Long'' else ''Short''))"

definition own_timestamps :: "request \<Rightarrow> state \<Rightarrow> datetime list" where
  "own_timestamps data s =
     (if req_ticker data = Some ''ES'' then timestamps_ES s else timestamps_NQ s)"

definition other_timestamps :: "request \<Rightarrow> state \<Rightarrow> datetime list" where
  "other_timestamps data s =
     (if req_ticker data = Some ''ES'' then timestamps_NQ s else timestamps_ES s)"

text \<open>The effects of handling a webhook request, and the globals after it.\<close>

definition webhook_effects ::
  "config \<Rightarrow> broker \<Rightarrow> datetime \<Rightarrow> request \<Rightarrow> state \<Rightarrow> effect list" where
  "webhook_effects cfg br now data s = snd (snd (handle_webhook cfg br now data s))"

definition webhook_state :: "config \<Rightarrow> broker \<Rightarrow> datetime \<Rightarrow> request \<Rightarrow> state \<Rightarrow> state" where
  "webhook_state cfg br now data s = fst (snd (handle_webhook cfg br now data s))"

section \<open>Sample inputs\<close>

text \<open>A configuration, a clock reading (10:00, five hours behind UTC) and the flat,
  live, bullish state the program starts in, for evaluating the program.\<close>

definition sample_config :: config where
  "sample_config =
     \<lparr>PAYLOAD_TOKEN = ''secret'', NARROW_NQ = 20, MEDIUM_NQ = 40, WIDE_NQ = 60,
      NARROW_ES = 5, MEDIUM_ES = 10, WIDE_ES = 15, BULLISH = True, SIZE_ES = 1, SIZE_NQ = 2,
      TICKER_ES = ''/ES'', TICKER_NQ = ''/NQ'', CONFIG_LIVE = True,
      symbol_ES = ''/ESZ6'', symbol_NQ = ''/NQZ6''\<rparr>"

definition sample_time :: datetime where
  "sample_time = \<lparr>wall = 36000000000, utcoffset = - 18000000000\<rparr>"

definition sample_state :: state where
  "sample_state = initial_state sample_config"

text \<open>A long futures position and a live stop order, as the broker reports them.\<close>

definition sample_long :: CurrentPosition where
  "sample_long =
     \<lparr>quantity_direction = ''Long'', instrument_type = FUTURE, quantity = Dec 1 0,
      symbol = ''/ESZ6'', underlying_symbol = ''/ES''\<rparr>"

definition sample_stop :: PlacedOrder where
  "sample_stop = \<lparr>placed_order_type = STOP, placed_status = OrderStatus.LIVE, placed_id = 7\<rparr>"

text \<open>Broker answers: every submission accepted and nothing held; no position left
  but a stop order still working; a long position held with its stop order; and every
  submission refused while that position is held.\<close>

definition accepting_broker :: broker where
  "accepting_broker =
     \<lparr>place_complex_order_ok = True, get_positions = [], get_live_orders = (\<lambda>n. []),
      place_order_ok = (\<lambda>n. True)\<rparr>"

definition drifted_broker :: broker where
  "drifted_broker =
     \<lparr>place_complex_order_ok = True, get_positions = [],
      get_live_orders = (\<lambda>n. [sample_stop]), place_order_ok = (\<lambda>n. True)\<rparr>"

definition holding_broker :: broker where
  "holding_broker =
     \<lparr>place_complex_order_ok = True, get_positions = [sample_long],
      get_live_orders = (\<lambda>n. [sample_stop]), place_order_ok = (\<lambda>n. True)\<rparr>"

definition rejecting_broker :: broker where
  "rejecting_broker =
     \<lparr>place_complex_order_ok = False, get_positions = [sample_long],
      get_live_orders = (\<lambda>n. [sample_stop]), place_order_ok = (\<lambda>n. False)\<rparr>"

text \<open>A well-formed long alert, the position it opens on ES, and the state holding
  that position.\<close>

definition sample_alert :: "string \<Rightarrow> request" where
  "sample_alert ticker =
     \<lparr>req_payload_token = Some ''secret'', req_ticker = Some ticker,
      req_price = Some (Dec 500025 (- 2)), req_alert_type = Some ''Long'',
      req_stop_type = Some ''Medium'', req_bypass = False\<rparr>"

definition sample_position :: position where
  "sample_position = position_object sample_config ES ''Medium'' (Dec 500025 (- 2)) BUY"

definition sample_open_state :: state where
  "sample_open_state = sample_state\<lparr>in_position := [sample_position]\<rparr>"



section \<open>Properties\<close>

subsection \<open>The live switch\<close>

text \<open>
  C9. Two requests to switch the live status in a row, both with the right token,
  leave the globals exactly as they were: the live flag is back at its first value,
  and the position slot, the alert timestamps and the bias were never touched. Neither
  request has an effect on the broker; after the first one only the live flag differs.
\<close>

theorem live_toggle_twice:
  assumes "req_payload_token d1 = Some (PAYLOAD_TOKEN cfg)"
      and "req_payload_token d2 = Some (PAYLOAD_TOKEN cfg)"
  shows "(case handle_switch_live_status cfg d1 s of
            (r1, s1, e1) \<Rightarrow>
              (case handle_switch_live_status cfg d2 s1 of
                 (r2, s2, e2) \<Rightarrow>
                   s2 = s \<and> e1 = [] \<and> e2 = []
                   \<and> is_live s1 = (\<not> is_live s)
                   \<and> in_position s1 = in_position s
                   \<and> timestamps_ES s1 = timestamps_ES s
                   \<and> timestamps_NQ s1 = timestamps_NQ s
                   \<and> is_bullish s1 = is_bullish s))"
  using assms by (simp add: handle_switch_live_status_def Let_def)

theorem live_toggle_twice_witness:
  "req_payload_token (sample_alert ''ES'') = Some (PAYLOAD_TOKEN sample_config)
   \<and> req_payload_token (sample_alert ''NQ'') = Some (PAYLOAD_TOKEN sample_config)
   \<and> (case handle_switch_live_status sample_config (sample_alert ''ES'') sample_state of
            (r1, s1, e1) \<Rightarrow>
              (case handle_switch_live_status sample_config (sample_alert ''NQ'') s1 of
                 (r2, s2, e2) \<Rightarrow>
                   s2 = sample_state \<and> e1 = [] \<and> e2 = []
                   \<and> is_live s1 = (\<not> is_live sample_state)
                   \<and> in_position s1 = in_position sample_state
                   \<and> timestamps_ES s1 = timestamps_ES sample_state
                   \<and> timestamps_NQ s1 = timestamps_NQ sample_state
                   \<and> is_bullish s1 = is_bullish sample_state))"
  using live_toggle_twice [of "sample_alert ''ES''" sample_config "sample_alert ''NQ''" sample_state]
  by (simp add: sample_alert_def sample_config_def)

subsection \<open>Facts about closing and cancelling\<close>

lemma close_loop_no_match:
  "list_all (\<lambda>pos. \<not> closable direction pos) ps
   \<Longrightarrow> close_loop br s direction current_price n ps = (True, [])"
  by (induction ps) (auto simp: closable_def)

lemma close_loop_Cons:
  "close_loop br s direction current_price n (pos # rest) =
     (if closable direction pos then
        (if place_order_ok br n then
           (fst (close_loop br s direction current_price (Suc n) rest),
            cancel_live_orders (get_live_orders br n) s @
            [Get_future (symbol pos), Place_order (closing_order_of direction pos),
             Pushover (Closing direction (underlying_symbol pos) current_price (quantity pos))]
            @ snd (close_loop br s direction current_price (Suc n) rest))
         else
           (False,
            cancel_live_orders (get_live_orders br n) s @
            [Get_future (symbol pos), Place_order (closing_order_of direction pos),
             Pushover Error_closing]))
      else close_loop br s direction current_price n rest)"
  by (simp add: closable_def Let_def split: prod.splits)

lemma close_loop_fails:
  "i < length (filter (closable direction) ps) \<Longrightarrow> \<not> place_order_ok br (n + i)
   \<Longrightarrow> \<not> fst (close_loop br s direction current_price n ps)"
proof (induction ps arbitrary: n i)
  case Nil
  then show ?case by simp
next
  case (Cons pos rest)
  show ?case
  proof (cases "closable direction pos \<and> place_order_ok br n")
    case False
    with Cons show ?thesis
      by (auto simp: close_loop_Cons simp del: close_loop.simps(2))
  next
    case True
    with Cons.prems have "i \<noteq> 0" by (cases i) auto
    then obtain j where j: "i = Suc j" by (cases i) auto
    with Cons.prems True have "j < length (filter (closable direction) rest)"
      and "\<not> place_order_ok br (Suc n + j)" by auto
    then have "\<not> fst (close_loop br s direction current_price (Suc n) rest)"
      by (rule Cons.IH)
    with True show ?thesis
      by (simp add: close_loop_Cons del: close_loop.simps(2))
  qed
qed

lemma close_loop_error_last:
  "\<not> fst (close_loop br s direction current_price n ps)
   \<Longrightarrow> snd (close_loop br s direction current_price n ps) \<noteq> []
       \<and> last (snd (close_loop br s direction current_price n ps)) = Pushover Error_closing"
  by (induction ps arbitrary: n)
     (auto simp: close_loop_Cons simp del: close_loop.simps(2) split: if_splits)

lemma cancel_live_orders_eq:
  "is_live s \<Longrightarrow> cancel_live_orders ws s
     = Get_live_orders # map (\<lambda>w. Delete_order (placed_id w)) (filter cancellable ws)"
  unfolding cancel_live_orders_def cancellable_def [abs_def] by (simp add: conj_commute disj_commute)

subsection \<open>Closing when the broker holds nothing to close\<close>

text \<open>
  C10. In live mode, when no position in the broker's list passes the test of
  \<^verbatim>\<open>close_positions\<close> (the requested direction, a future, a positive quantity),
  the position slot is emptied all the same: the broker was asked for its positions,
  the fixed delay was kept, no closing order was submitted and no working order was
  cancelled.
\<close>

theorem close_without_match_clears:
  assumes "is_live s"
      and "list_all (\<lambda>pos. \<not> closable direction pos) (get_positions br)"
  shows "close_positions br direction current_price s
           = (s\<lparr>in_position := []\<rparr>, [Get_positions, Sleep 1])
         \<and> \<not> list_ex is_closing_order (snd (close_positions br direction current_price s))
         \<and> \<not> list_ex is_cancellation (snd (close_positions br direction current_price s))"
  using assms by (simp add: close_positions_def close_loop_no_match)

theorem close_without_match_clears_witness:
  "is_live sample_open_state
   \<and> list_all (\<lambda>pos. \<not> closable ''Short'' pos) (get_positions holding_broker)
   \<and> in_position sample_open_state \<noteq> []
   \<and> close_positions holding_broker ''Short'' (Dec 500025 (- 2)) sample_open_state
           = (sample_open_state\<lparr>in_position := []\<rparr>, [Get_positions, Sleep 1])
   \<and> \<not> list_ex is_closing_order
          (snd (close_positions holding_broker ''Short'' (Dec 500025 (- 2)) sample_open_state))
   \<and> \<not> list_ex is_cancellation
          (snd (close_positions holding_broker ''Short'' (Dec 500025 (- 2)) sample_open_state))"
proof -
  have live: "is_live sample_open_state"
    by (simp add: sample_open_state_def sample_state_def initial_state_def sample_config_def)
  have none: "list_all (\<lambda>pos. \<not> closable ''Short'' pos) (get_positions holding_broker)"
    by (simp add: holding_broker_def sample_long_def closable_def)
  have held: "in_position sample_open_state \<noteq> []"
    by (simp add: sample_open_state_def)
  show ?thesis
    using close_without_match_clears [OF live none, of "Dec 500025 (- 2)"] live none held
    by simp
qed

subsection \<open>Reconciliation\<close>

text \<open>
  C7. A reconciliation round that finds a tracked position, live mode on and an empty
  position list at the broker deletes every working stop or limit order that is live
  and empties the position slot. The next round, whatever the broker would answer,
  finds the slot empty and does nothing but wait: no query, no cancellation, the same
  state.
\<close>

theorem reconciliation_clears_once:
  assumes "in_position s \<noteq> []" and "is_live s" and "get_positions br = []"
  shows "reconciliation_pass br s
           = (s\<lparr>in_position := []\<rparr>,
              [Get_positions, Get_live_orders]
              @ map (\<lambda>w. Delete_order (placed_id w)) (filter cancellable (get_live_orders br 0))
              @ [Sleep 1, Sleep 15])
         \<and> reconciliation_pass br' (fst (reconciliation_pass br s))
           = (s\<lparr>in_position := []\<rparr>, [Sleep 15])"
  using assms by (simp add: reconciliation_pass_def cancel_live_orders_eq)

theorem reconciliation_clears_once_witness:
  "in_position sample_open_state \<noteq> [] \<and> is_live sample_open_state
   \<and> get_positions drifted_broker = []
   \<and> reconciliation_pass drifted_broker sample_open_state
        = (sample_state, [Get_positions, Get_live_orders, Delete_order 7, Sleep 1, Sleep 15])
   \<and> reconciliation_pass drifted_broker (fst (reconciliation_pass drifted_broker sample_open_state))
        = (sample_state, [Sleep 15])"
proof -
  have held: "in_position sample_open_state \<noteq> []"
    by (simp add: sample_open_state_def)
  have live: "is_live sample_open_state"
    by (simp add: sample_open_state_def sample_state_def initial_state_def sample_config_def)
  have none: "get_positions drifted_broker = []"
    by (simp add: drifted_broker_def)
  have flat: "sample_open_state\<lparr>in_position := []\<rparr> = sample_state"
    by (simp add: sample_open_state_def sample_state_def initial_state_def)
  have orders: "filter cancellable (get_live_orders drifted_broker 0) = [sample_stop]"
    by (simp add: drifted_broker_def cancellable_def sample_stop_def)
  have ident: "placed_id sample_stop = 7"
    by (simp add: sample_stop_def)
  note r = reconciliation_clears_once [OF held live none, of drifted_broker]
  from r [THEN conjunct1] have first: "reconciliation_pass drifted_broker sample_open_state
        = (sample_state, [Get_positions, Get_live_orders, Delete_order 7, Sleep 1, Sleep 15])"
    by (simp add: flat orders ident)
  from r [THEN conjunct2] have "reconciliation_pass drifted_broker
         (fst (reconciliation_pass drifted_broker sample_open_state)) = (sample_state, [Sleep 15])"
    by (simp only: flat)
  with first held live none show ?thesis by simp
qed

subsection \<open>Refused submissions\<close>

text \<open>
  C5. When the broker refuses the entry order, \<^verbatim>\<open>process_trade\<close> leaves the
  globals as they were: no position is recorded and the alert timestamps are not
  cleared. When the broker refuses a closing order (the submission for the \<open>i\<close>-th
  closable position raises, or an earlier one did), \<^verbatim>\<open>close_positions\<close> returns
  with the globals as they were, the position slot included, after the error notice.
\<close>

theorem failed_submission_keeps_state:
  assumes "in_position s = []" and "is_live s" and "recognised_stop_type (Some st)"
      and "\<not> place_complex_order_ok br"
      and "is_live s'" and "i < length (filter (closable direction) (get_positions br'))"
      and "\<not> place_order_ok br' i"
  shows "process_trade cfg br ticker (Some st) current_price order_action s
           = (None, s,
              [Get_future (symbol_of cfg ticker),
               Place_complex_order (otoco_order cfg ticker st current_price order_action),
               Pushover Error_opening])
         \<and> fst (close_positions br' direction current_price s') = s'
         \<and> last (snd (close_positions br' direction current_price s')) = Pushover Error_closing"
proof -
  have "\<not> fst (close_loop br' s' direction current_price 0 (get_positions br'))"
    using assms(6,7) close_loop_fails [of i direction "get_positions br'" br' 0] by simp
  moreover from this
  have "snd (close_loop br' s' direction current_price 0 (get_positions br')) \<noteq> []
        \<and> last (snd (close_loop br' s' direction current_price 0 (get_positions br')))
          = Pushover Error_closing"
    by (rule close_loop_error_last)
  ultimately show ?thesis
    using assms(1-5)
    by (auto simp: process_trade_def recognised_stop_type_def close_positions_def Let_def
             split: prod.splits)
qed

theorem failed_submission_keeps_state_witness:
  "in_position sample_state = [] \<and> is_live sample_state
   \<and> recognised_stop_type (Some ''Medium'')
   \<and> \<not> place_complex_order_ok rejecting_broker
   \<and> is_live sample_open_state
   \<and> 0 < length (filter (closable ''Long'') (get_positions rejecting_broker))
   \<and> \<not> place_order_ok rejecting_broker 0
   \<and> process_trade sample_config rejecting_broker ES (Some ''Medium'') (Dec 500025 (- 2)) BUY
        sample_state
        = (None, sample_state,
           [Get_future (symbol_of sample_config ES),
            Place_complex_order (otoco_order sample_config ES ''Medium'' (Dec 500025 (- 2)) BUY),
            Pushover Error_opening])
   \<and> fst (close_positions rejecting_broker ''Long'' (Dec 500025 (- 2)) sample_open_state)
        = sample_open_state
   \<and> last (snd (close_positions rejecting_broker ''Long'' (Dec 500025 (- 2)) sample_open_state))
        = Pushover Error_closing"
proof -
  have flat: "in_position sample_state = []"
    by (simp add: sample_state_def initial_state_def)
  have live: "is_live sample_state"
    by (simp add: sample_state_def initial_state_def sample_config_def)
  have stop: "recognised_stop_type (Some ''Medium'')"
    by (simp add: recognised_stop_type_def)
  have refused: "\<not> place_complex_order_ok rejecting_broker"
    by (simp add: rejecting_broker_def)
  have live': "is_live sample_open_state"
    by (simp add: sample_open_state_def sample_state_def initial_state_def sample_config_def)
  have held: "0 < length (filter (closable ''Long'') (get_positions rejecting_broker))"
    by (simp add: rejecting_broker_def sample_long_def closable_def dec_positive_def)
  have refused': "\<not> place_order_ok rejecting_broker 0"
    by (simp add: rejecting_broker_def)
  show ?thesis
    using failed_submission_keeps_state [OF flat live stop refused live' held refused',
        of sample_config ES "Dec 500025 (- 2)" BUY]
      flat live stop refused live' held refused'
    by simp
qed

subsection \<open>The position slot\<close>

lemma process_trade_slot:
  "in_position (fst (snd (process_trade cfg br ticker stop_type current_price order_action s)))
     = in_position s
   \<or> (in_position s = []
      \<and> length (in_position
           (fst (snd (process_trade cfg br ticker stop_type current_price order_action s)))) = 1)"
  by (simp add: process_trade_def clear_timestamps_def Let_def split: option.splits)

lemma close_positions_slot:
  "in_position (fst (close_positions br direction current_price s)) = in_position s
   \<or> in_position (fst (close_positions br direction current_price s)) = []"
  by (simp add: close_positions_def split: prod.splits)

lemma reconciliation_pass_slot:
  "in_position (fst (reconciliation_pass br s)) = in_position s
   \<or> in_position (fst (reconciliation_pass br s)) = []"
  by (simp add: reconciliation_pass_def)

lemma clean_old_timestamps_slot:
  "in_position (clean_old_timestamps t s) = in_position s"
  by (simp add: clean_old_timestamps_def Let_def)

lemma append_timestamp_slot:
  "append_timestamp ticker t s = Some s1 \<Longrightarrow> in_position s1 = in_position s"
  by (auto simp: append_timestamp_def split: if_splits)

lemma process_trade_bound:
  "single_slot s \<Longrightarrow>
   single_slot (fst (snd (process_trade cfg br ticker stop_type current_price order_action s)))"
  using process_trade_slot [of cfg br ticker stop_type current_price order_action s]
  by (auto simp: single_slot_def)

lemma close_positions_bound:
  "single_slot s \<Longrightarrow> single_slot (fst (close_positions br direction current_price s))"
  using close_positions_slot [of br direction current_price s]
  by (auto simp: single_slot_def)

lemma reconciliation_pass_bound:
  "single_slot s \<Longrightarrow> single_slot (fst (reconciliation_pass br s))"
  using reconciliation_pass_slot [of br s] by (auto simp: single_slot_def)

lemma handle_bullish_alert_bound:
  assumes "single_slot s"
  shows "single_slot (fst (snd (handle_bullish_alert cfg br ticker alert_type stop_type
     current_price current_time forbidden_start forbidden_end bypass s)))"
proof (cases "alert_type = Some ''Long''")
  case True
  show ?thesis
  proof (cases "append_timestamp ticker current_time s")
    case None
    with True assms show ?thesis by (simp add: handle_bullish_alert_def)
  next
    case (Some s1)
    let ?s2 = "clean_old_timestamps current_time s1"
    have s2: "single_slot ?s2"
      using assms append_timestamp_slot [OF Some]
      by (simp add: clean_old_timestamps_slot single_slot_def)
    then have "single_slot
        (fst (snd (process_trade cfg br tk stop_type current_price BUY ?s2)))" for tk
      by (rule process_trade_bound)
    with True Some s2 show ?thesis by (simp add: handle_bullish_alert_def Let_def)
  qed
next
  case False
  with assms close_positions_bound [OF assms, of br "''Long''" current_price]
  show ?thesis by (simp add: handle_bullish_alert_def case_prod_unfold)
qed

lemma handle_bearish_alert_bound:
  assumes "single_slot s"
  shows "single_slot (fst (snd (handle_bearish_alert cfg br ticker alert_type stop_type
     current_price current_time forbidden_start forbidden_end bypass s)))"
proof (cases "alert_type = Some ''Short''")
  case True
  show ?thesis
  proof (cases "append_timestamp ticker current_time s")
    case None
    with True assms show ?thesis by (simp add: handle_bearish_alert_def)
  next
    case (Some s1)
    let ?s2 = "clean_old_timestamps current_time s1"
    have s2: "single_slot ?s2"
      using assms append_timestamp_slot [OF Some]
      by (simp add: clean_old_timestamps_slot single_slot_def)
    then have "single_slot
        (fst (snd (process_trade cfg br tk stop_type current_price SELL ?s2)))" for tk
      by (rule process_trade_bound)
    with True Some s2 show ?thesis by (simp add: handle_bearish_alert_def Let_def)
  qed
next
  case False
  with assms close_positions_bound [OF assms, of br "''Short''" current_price]
  show ?thesis by (simp add: handle_bearish_alert_def case_prod_unfold)
qed

lemma raised_or_response_state:
  "fst (snd (case r of (Some e, s', effs) \<Rightarrow> (Raised e, s', effs)
                     | (None, s', effs) \<Rightarrow> (Response 200 [], s', effs))) = fst (snd r)"
  by (cases r) (auto split: option.splits)

lemma handle_webhook_bound:
  assumes "single_slot s"
  shows "single_slot (fst (snd (handle_webhook cfg br now data s)))"
proof (cases "req_payload_token data = Some (PAYLOAD_TOKEN cfg) \<and> is_live s")
  case False
  with assms show ?thesis by (auto simp: handle_webhook_def)
next
  case True
  show ?thesis
  proof (cases "req_price data")
    case None
    with True assms show ?thesis by (simp add: handle_webhook_def)
  next
    case (Some current_price)
    have "fst (snd (handle_webhook cfg br now data s)) =
        fst (snd (if is_bullish s then
           handle_bullish_alert cfg br (req_ticker data) (req_alert_type data)
             (req_stop_type data) current_price now (replace_time now 8 30)
             (replace_time now 8 35) (req_bypass data) s
         else
           handle_bearish_alert cfg br (req_ticker data) (req_alert_type data)
             (req_stop_type data) current_price now (replace_time now 8 30)
             (replace_time now 8 35) (req_bypass data) s))"
      using True Some
      by (simp add: handle_webhook_def Let_def raised_or_response_state)
    then show ?thesis
      using handle_bullish_alert_bound [OF assms] handle_bearish_alert_bound [OF assms]
      by simp
  qed
qed

lemma handle_switch_bias_bound:
  assumes "single_slot s"
  shows "single_slot (fst (snd (handle_switch_bias cfg br data s)))"
  using close_positions_bound [OF assms, of br "''Long''" "Decimal_of_int 0"]
    close_positions_bound [OF assms, of br "''Short''" "Decimal_of_int 0"] assms
  by (simp add: handle_switch_bias_def clear_timestamps_def Let_def case_prod_unfold
        single_slot_def)

lemma handle_switch_live_status_bound:
  assumes "single_slot s"
  shows "single_slot (fst (snd (handle_switch_live_status cfg data s)))"
  using assms by (simp add: handle_switch_live_status_def Let_def single_slot_def)

lemma step_bound:
  "single_slot s \<Longrightarrow> single_slot (step cfg s ev)"
  by (cases ev)
     (simp_all add: handle_webhook_bound handle_switch_bias_bound
        handle_switch_live_status_bound reconciliation_pass_bound)

lemma run_bound:
  "single_slot s \<Longrightarrow> single_slot (run cfg evs s)"
  unfolding run_def by (induction evs arbitrary: s) (simp_all add: step_bound)

lemma sample_run:
  "in_position (run sample_config
     [Webhook accepting_broker sample_time (sample_alert ''NQ''),
      Webhook accepting_broker sample_time (sample_alert ''ES''),
      Webhook accepting_broker sample_time (sample_alert ''NQ''),
      Webhook accepting_broker sample_time (sample_alert ''ES'')]
     (initial_state sample_config)) = [sample_position]"
  by (simp add: run_def handle_webhook_def handle_bullish_alert_def process_trade_def
      append_timestamp_def clean_old_timestamps_def clear_timestamps_def
      sample_config_def sample_alert_def sample_time_def accepting_broker_def
      initial_state_def sample_open_state_def sample_state_def sample_position_def
      position_object_def Let_def dt_less_def dt_le_def instant_def dt_minus_def
      timedelta_def replace_time_def microseconds_per_day_def)

text \<open>
  C1. Whatever webhook alerts, bias switches, live switches and reconciliation rounds
  the program handles, one after the other from its start, the position slot holds at
  most one entry. \<^verbatim>\<open>process_trade\<close> either leaves the slot as it is or finds it
  empty and leaves exactly one entry; \<^verbatim>\<open>close_positions\<close> and a reconciliation
  round either leave the slot as it is or empty it.
\<close>

theorem at_most_one_position:
  "length (in_position (run cfg evs (initial_state cfg))) \<le> 1
   \<and> (in_position (fst (snd (process_trade cfg br ticker stop_type current_price order_action s)))
        = in_position s
      \<or> (in_position s = []
         \<and> length (in_position
              (fst (snd (process_trade cfg br ticker stop_type current_price order_action s))))
            = 1))
   \<and> (in_position (fst (close_positions br direction current_price s)) = in_position s
      \<or> in_position (fst (close_positions br direction current_price s)) = [])
   \<and> (in_position (fst (reconciliation_pass br s)) = in_position s
      \<or> in_position (fst (reconciliation_pass br s)) = [])"
proof -
  have "single_slot (initial_state cfg)"
    by (simp add: initial_state_def single_slot_def)
  then have "single_slot (run cfg evs (initial_state cfg))"
    by (rule run_bound)
  then have "length (in_position (run cfg evs (initial_state cfg))) \<le> 1"
    by (simp only: single_slot_def)
  then show ?thesis
    using process_trade_slot [of cfg br ticker stop_type current_price order_action s]
      close_positions_slot [of br direction current_price s]
      reconciliation_pass_slot [of br s]
    by blast
qed

theorem at_most_one_position_witness:
  "in_position (run sample_config
     [Webhook accepting_broker sample_time (sample_alert ''NQ''),
      Webhook accepting_broker sample_time (sample_alert ''ES''),
      Webhook accepting_broker sample_time (sample_alert ''NQ''),
      Webhook accepting_broker sample_time (sample_alert ''ES'')]
     (initial_state sample_config)) = [sample_position]
   \<and> length (in_position (run sample_config
     [Webhook accepting_broker sample_time (sample_alert ''NQ''),
      Webhook accepting_broker sample_time (sample_alert ''ES''),
      Webhook accepting_broker sample_time (sample_alert ''NQ''),
      Webhook accepting_broker sample_time (sample_alert ''ES'')]
     (initial_state sample_config))) \<le> 1"
  using at_most_one_position [of sample_config
     "[Webhook accepting_broker sample_time (sample_alert ''NQ''),
      Webhook accepting_broker sample_time (sample_alert ''ES''),
      Webhook accepting_broker sample_time (sample_alert ''NQ''),
      Webhook accepting_broker sample_time (sample_alert ''ES'')]"]
  by (simp add: sample_run)

subsection \<open>Entering\<close>



subsection \<open>The correlation gate\<close>

lemma blackout_iff:
  "(dt_le (replace_time now 8 30) now \<and> dt_le now (replace_time now 8 35)) = in_blackout now"
proof -
  have "wall now div 86400000000 * 86400000000 = wall now - wall now mod 86400000000"
    by (simp add: minus_mod_eq_div_mult)
  then show ?thesis
    unfolding dt_le_def instant_def replace_time_def in_blackout_def time_of_day_def
      microseconds_per_day_def timedelta_def
    by auto
qed

lemma younger_iff:
  "dt_less (dt_minus now (timedelta 1 30)) = younger_than_90_minutes now"
  by (rule ext)
     (auto simp: dt_less_def dt_minus_def instant_def timedelta_def younger_than_90_minutes_def)

lemma clean_old_timestamps_eq:
  "clean_old_timestamps now s =
     s\<lparr>timestamps_ES := filter (younger_than_90_minutes now) (timestamps_ES s),
       timestamps_NQ := filter (younger_than_90_minutes now) (timestamps_NQ s)\<rparr>"
  by (simp add: clean_old_timestamps_def Let_def younger_iff)

lemma younger_self: "younger_than_90_minutes now now"
  by (simp add: younger_than_90_minutes_def)

lemma filter_nonempty_list_ex: "(filter P xs \<noteq> []) = list_ex P xs"
  by (induction xs) auto

lemma process_trade_attempt:
  "list_ex is_entry_attempt
     (snd (snd (process_trade cfg br ticker stop_type current_price order_action s)))
   = (is_live s \<and> in_position s = [] \<and> recognised_stop_type stop_type)"
  by (auto simp: process_trade_def recognised_stop_type_def Let_def split: option.splits)

lemma process_trade_timestamps:
  "(timestamps_ES (fst (snd (process_trade cfg br ticker stop_type current_price order_action s)))
      = timestamps_ES s
    \<and> timestamps_NQ (fst (snd (process_trade cfg br ticker stop_type current_price order_action s)))
      = timestamps_NQ s
    \<and> in_position (fst (snd (process_trade cfg br ticker stop_type current_price order_action s)))
      = in_position s)
   \<or> (timestamps_ES (fst (snd (process_trade cfg br ticker stop_type current_price order_action s)))
      = []
    \<and> timestamps_NQ (fst (snd (process_trade cfg br ticker stop_type current_price order_action s)))
      = []
    \<and> in_position (fst (snd (process_trade cfg br ticker stop_type current_price order_action s)))
      \<noteq> [])"
  by (simp add: process_trade_def clear_timestamps_def Let_def split: option.splits)

text \<open>The gate, for an alert in the direction of the bias on one of the two tickers.\<close>

lemma handle_bullish_alert_ES:
  "handle_bullish_alert cfg br (Some ''ES'') (Some ''Long'') stop_type current_price now
     (replace_time now 8 30) (replace_time now 8 35) bypass s =
   (if (list_ex (younger_than_90_minutes now) (timestamps_NQ s) \<and> \<not> in_blackout now) \<or> bypass
    then process_trade cfg br ES stop_type current_price BUY
      (clean_old_timestamps now (s\<lparr>timestamps_ES := timestamps_ES s @ [now]\<rparr>))
    else (None, clean_old_timestamps now (s\<lparr>timestamps_ES := timestamps_ES s @ [now]\<rparr>), []))"
  by (simp add: handle_bullish_alert_def append_timestamp_def Let_def blackout_iff
      clean_old_timestamps_eq filter_nonempty_list_ex)

lemma handle_bullish_alert_NQ:
  "handle_bullish_alert cfg br (Some ''NQ'') (Some ''Long'') stop_type current_price now
     (replace_time now 8 30) (replace_time now 8 35) bypass s =
   (if (list_ex (younger_than_90_minutes now) (timestamps_ES s) \<and> \<not> in_blackout now) \<or> bypass
    then process_trade cfg br NQ stop_type current_price BUY
      (clean_old_timestamps now (s\<lparr>timestamps_NQ := timestamps_NQ s @ [now]\<rparr>))
    else (None, clean_old_timestamps now (s\<lparr>timestamps_NQ := timestamps_NQ s @ [now]\<rparr>), []))"
  by (simp add: handle_bullish_alert_def append_timestamp_def Let_def blackout_iff
      clean_old_timestamps_eq filter_nonempty_list_ex)

lemma handle_bearish_alert_ES:
  "handle_bearish_alert cfg br (Some ''ES'') (Some ''Short'') stop_type current_price now
     (replace_time now 8 30) (replace_time now 8 35) bypass s =
   (if (list_ex (younger_than_90_minutes now) (timestamps_NQ s) \<and> \<not> in_blackout now) \<or> bypass
    then process_trade cfg br ES stop_type current_price SELL
      (clean_old_timestamps now (s\<lparr>timestamps_ES := timestamps_ES s @ [now]\<rparr>))
    else (None, clean_old_timestamps now (s\<lparr>timestamps_ES := timestamps_ES s @ [now]\<rparr>), []))"
  by (simp add: handle_bearish_alert_def append_timestamp_def Let_def blackout_iff
      clean_old_timestamps_eq filter_nonempty_list_ex)

lemma handle_bearish_alert_NQ:
  "handle_bearish_alert cfg br (Some ''NQ'') (Some ''Short'') stop_type current_price now
     (replace_time now 8 30) (replace_time now 8 35) bypass s =
   (if (list_ex (younger_than_90_minutes now) (timestamps_ES s) \<and> \<not> in_blackout now) \<or> bypass
    then process_trade cfg br NQ stop_type current_price SELL
      (clean_old_timestamps now (s\<lparr>timestamps_NQ := timestamps_NQ s @ [now]\<rparr>))
    else (None, clean_old_timestamps now (s\<lparr>timestamps_NQ := timestamps_NQ s @ [now]\<rparr>), []))"
  by (simp add: handle_bearish_alert_def append_timestamp_def Let_def blackout_iff
      clean_old_timestamps_eq filter_nonempty_list_ex)

lemma gate_step:
  assumes "with_the_bias data s" and "tracked_ticker data"
  shows "(if is_bullish s then
            handle_bullish_alert cfg br (req_ticker data) (req_alert_type data)
              (req_stop_type data) current_price now (replace_time now 8 30)
              (replace_time now 8 35) (req_bypass data) s
          else
            handle_bearish_alert cfg br (req_ticker data) (req_alert_type data)
              (req_stop_type data) current_price now (replace_time now 8 30)
              (replace_time now 8 35) (req_bypass data) s)
         = (if (list_ex (younger_than_90_minutes now) (other_timestamps data s)
                \<and> \<not> in_blackout now) \<or> req_bypass data
            then process_trade cfg br (if req_ticker data = Some ''ES'' then ES else NQ)
                   (req_stop_type data) current_price (if is_bullish s then BUY else SELL)
                   (clean_old_timestamps now (the (append_timestamp (req_ticker data) now s)))
            else (None,
                  clean_old_timestamps now (the (append_timestamp (req_ticker data) now s)),
                  []))"
  using assms
  by (auto simp: with_the_bias_def tracked_ticker_def other_timestamps_def
      handle_bullish_alert_ES handle_bullish_alert_NQ handle_bearish_alert_ES
      handle_bearish_alert_NQ append_timestamp_def)

lemma recorded_state:
  assumes "tracked_ticker data"
  shows "is_live (clean_old_timestamps now (the (append_timestamp (req_ticker data) now s)))
           = is_live s"
    and "in_position (clean_old_timestamps now (the (append_timestamp (req_ticker data) now s)))
           = in_position s"
    and "is_bullish (clean_old_timestamps now (the (append_timestamp (req_ticker data) now s)))
           = is_bullish s"
    and "own_timestamps data
           (clean_old_timestamps now (the (append_timestamp (req_ticker data) now s)))
           = filter (younger_than_90_minutes now) (own_timestamps data s) @ [now]"
    and "other_timestamps data
           (clean_old_timestamps now (the (append_timestamp (req_ticker data) now s)))
           = filter (younger_than_90_minutes now) (other_timestamps data s)"
  using assms
  by (auto simp: tracked_ticker_def append_timestamp_def clean_old_timestamps_eq
      own_timestamps_def other_timestamps_def younger_self)

lemma wrap_outcome:
  "snd (case r of (Some e, s', effs) \<Rightarrow> (Raised e, s', effs)
                | (None, s', effs) \<Rightarrow> (Response 200 [], s', effs)) = snd r"
  "fst (case r of (Some e, s', effs) \<Rightarrow> (Raised e, s', effs)
                | (None, s', effs) \<Rightarrow> (Response 200 [], s', effs))
     = (case fst r of Some e \<Rightarrow> Raised e | None \<Rightarrow> Response 200 [])"
  by (cases r; auto split: option.splits)+

lemma handle_webhook_alert:
  assumes "req_payload_token data = Some (PAYLOAD_TOKEN cfg)" and "is_live s"
      and "req_price data = Some current_price"
      and "with_the_bias data s" and "tracked_ticker data"
  shows "snd (handle_webhook cfg br now data s)
         = snd (if (list_ex (younger_than_90_minutes now) (other_timestamps data s)
                \<and> \<not> in_blackout now) \<or> req_bypass data
            then process_trade cfg br (if req_ticker data = Some ''ES'' then ES else NQ)
                   (req_stop_type data) current_price (if is_bullish s then BUY else SELL)
                   (clean_old_timestamps now (the (append_timestamp (req_ticker data) now s)))
            else (None,
                  clean_old_timestamps now (the (append_timestamp (req_ticker data) now s)),
                  []))"
proof -
  have "snd (handle_webhook cfg br now data s)
      = snd (if is_bullish s then
            handle_bullish_alert cfg br (req_ticker data) (req_alert_type data)
              (req_stop_type data) current_price now (replace_time now 8 30)
              (replace_time now 8 35) (req_bypass data) s
          else
            handle_bearish_alert cfg br (req_ticker data) (req_alert_type data)
              (req_stop_type data) current_price now (replace_time now 8 30)
              (replace_time now 8 35) (req_bypass data) s)"
    using assms(1-3) by (simp add: handle_webhook_def Let_def wrap_outcome)
  then show ?thesis
    by (simp only: gate_step [OF assms(4,5)])
qed

lemma recorded_young:
  assumes "tracked_ticker data"
  shows "list_all (younger_than_90_minutes now)
           (timestamps_ES (clean_old_timestamps now (the (append_timestamp (req_ticker data) now s)))
            @ timestamps_NQ
                (clean_old_timestamps now (the (append_timestamp (req_ticker data) now s))))"
  using assms
  by (auto simp: tracked_ticker_def append_timestamp_def clean_old_timestamps_eq younger_self
      list_all_iff)

lemma process_trade_young:
  assumes "list_all P (timestamps_ES s @ timestamps_NQ s)"
  shows "list_all P
     (timestamps_ES (fst (snd (process_trade cfg br ticker stop_type current_price order_action s)))
      @ timestamps_NQ
          (fst (snd (process_trade cfg br ticker stop_type current_price order_action s))))"
  using process_trade_timestamps [of cfg br ticker stop_type current_price order_action s] assms
  by auto

lemma gate_decision:
  assumes "req_payload_token data = Some (PAYLOAD_TOKEN cfg)" and "is_live s"
      and "req_price data = Some current_price"
      and "with_the_bias data s" and "tracked_ticker data"
      and "in_position s = []" and "recognised_stop_type (req_stop_type data)"
  shows "list_ex is_entry_attempt (webhook_effects cfg br now data s)
         = (req_bypass data
            \<or> (list_ex (younger_than_90_minutes now) (other_timestamps data s)
               \<and> \<not> in_blackout now))
         \<and> list_all (younger_than_90_minutes now)
             (timestamps_ES (webhook_state cfg br now data s)
              @ timestamps_NQ (webhook_state cfg br now data s))"
proof -
  let ?s2 = "clean_old_timestamps now (the (append_timestamp (req_ticker data) now s))"
  let ?gate = "(list_ex (younger_than_90_minutes now) (other_timestamps data s)
                \<and> \<not> in_blackout now) \<or> req_bypass data"
  let ?pt = "process_trade cfg br (if req_ticker data = Some ''ES'' then ES else NQ)
                   (req_stop_type data) current_price (if is_bullish s then BUY else SELL) ?s2"
  note w = handle_webhook_alert [OF assms(1-5), of br now]
  have s2: "is_live ?s2" "in_position ?s2 = []"
    using recorded_state(1,2) [OF assms(5), of now s] assms(2,6) by simp_all
  have young: "list_all (younger_than_90_minutes now) (timestamps_ES ?s2 @ timestamps_NQ ?s2)"
    by (rule recorded_young [OF assms(5)])
  have attempt: "list_ex is_entry_attempt (snd (snd ?pt))"
    using s2 assms(7) by (simp only: process_trade_attempt)
  show ?thesis
  proof (cases ?gate)
    case True
    from w have "snd (handle_webhook cfg br now data s) = snd ?pt"
      by (simp only: if_P [OF True])
    with True attempt process_trade_young [OF young] show ?thesis
      by (auto simp: webhook_effects_def webhook_state_def)
  next
    case False
    from w have "snd (handle_webhook cfg br now data s) = snd (None :: error option, ?s2, [])"
      by (simp only: if_not_P [OF False])
    then have "snd (handle_webhook cfg br now data s) = (?s2, [])"
      by simp
    with False young show ?thesis
      by (auto simp: webhook_effects_def webhook_state_def)
  qed
qed

lemma sample_alert_facts:
  "req_payload_token (sample_alert tk) = Some (PAYLOAD_TOKEN sample_config)"
  "req_price (sample_alert tk) = Some (Dec 500025 (- 2))"
  "recognised_stop_type (req_stop_type (sample_alert tk))"
  "\<not> req_bypass (sample_alert tk)"
  "req_ticker (sample_alert tk) = Some tk"
  "req_alert_type (sample_alert tk) = Some ''Long''"
  "tracked_ticker (sample_alert ''ES'')"
  "tracked_ticker (sample_alert ''NQ'')"
  by (simp_all add: sample_alert_def sample_config_def recognised_stop_type_def
      tracked_ticker_def)

lemma sample_state_facts:
  "is_live sample_state" "in_position sample_state = []" "is_bullish sample_state"
  "timestamps_ES sample_state = []" "timestamps_NQ sample_state = []"
  "with_the_bias (sample_alert tk) sample_state"
  by (simp_all add: sample_state_def initial_state_def sample_config_def with_the_bias_def
      sample_alert_def)

lemma sample_time_facts:
  "\<not> in_blackout sample_time" "younger_than_90_minutes sample_time sample_time"
  by (simp_all add: in_blackout_def time_of_day_def sample_time_def microseconds_per_day_def
      younger_than_90_minutes_def)

text \<open>
  C2. Take an authenticated alert, in live mode, for one of the two tickers and in the
  direction of the bias. With the slot empty and a recognised stop type (so that a
  call of \<^verbatim>\<open>process_trade\<close> shows as a submitted entry order), the entry order is
  submitted exactly when bypass is set, or the other ticker has a timestamp less than
  90 minutes old and the clock is not within 08:30:00 to 08:35:00, both ends included.
  After the call every timestamp left in the log is less than 90 minutes old.
\<close>

theorem correlation_gate:
  assumes "req_payload_token data = Some (PAYLOAD_TOKEN cfg)" and "is_live s"
      and "req_price data = Some current_price"
      and "with_the_bias data s" and "tracked_ticker data"
      and "in_position s = []" and "recognised_stop_type (req_stop_type data)"
  shows "list_ex is_entry_attempt (webhook_effects cfg br now data s)
         = (req_bypass data
            \<or> (list_ex (younger_than_90_minutes now) (other_timestamps data s)
               \<and> \<not> in_blackout now))
         \<and> list_all (younger_than_90_minutes now)
             (timestamps_ES (webhook_state cfg br now data s)
              @ timestamps_NQ (webhook_state cfg br now data s))"
  using assms by (rule gate_decision)

theorem correlation_gate_witness:
  "req_payload_token (sample_alert ''ES'') = Some (PAYLOAD_TOKEN sample_config)
   \<and> is_live (sample_state\<lparr>timestamps_NQ := [sample_time]\<rparr>)
   \<and> req_price (sample_alert ''ES'') = Some (Dec 500025 (- 2))
   \<and> with_the_bias (sample_alert ''ES'') (sample_state\<lparr>timestamps_NQ := [sample_time]\<rparr>)
   \<and> tracked_ticker (sample_alert ''ES'')
   \<and> in_position (sample_state\<lparr>timestamps_NQ := [sample_time]\<rparr>) = []
   \<and> recognised_stop_type (req_stop_type (sample_alert ''ES''))
   \<and> list_ex is_entry_attempt
        (webhook_effects sample_config accepting_broker sample_time (sample_alert ''ES'')
           (sample_state\<lparr>timestamps_NQ := [sample_time]\<rparr>))
   \<and> list_all (younger_than_90_minutes sample_time)
        (timestamps_ES
           (webhook_state sample_config accepting_broker sample_time (sample_alert ''ES'')
              (sample_state\<lparr>timestamps_NQ := [sample_time]\<rparr>))
         @ timestamps_NQ
           (webhook_state sample_config accepting_broker sample_time (sample_alert ''ES'')
              (sample_state\<lparr>timestamps_NQ := [sample_time]\<rparr>)))"
proof -
  let ?s = "sample_state\<lparr>timestamps_NQ := [sample_time]\<rparr>"
  have h: "req_payload_token (sample_alert ''ES'') = Some (PAYLOAD_TOKEN sample_config)"
    "is_live ?s" "req_price (sample_alert ''ES'') = Some (Dec 500025 (- 2))"
    "with_the_bias (sample_alert ''ES'') ?s" "tracked_ticker (sample_alert ''ES'')"
    "in_position ?s = []" "recognised_stop_type (req_stop_type (sample_alert ''ES''))"
    by (simp_all add: sample_alert_facts sample_state_facts(1-5) with_the_bias_def)
  have other: "other_timestamps (sample_alert ''ES'') ?s = [sample_time]"
    by (simp add: other_timestamps_def sample_alert_facts)
  note r = correlation_gate [OF h, of accepting_broker sample_time]
  from r [THEN conjunct1] have "list_ex is_entry_attempt
        (webhook_effects sample_config accepting_broker sample_time (sample_alert ''ES'') ?s)"
    by (simp add: other sample_time_facts)
  with h r [THEN conjunct2] show ?thesis by blast
qed

subsection \<open>What the webhook answers\<close>








subsection \<open>An alert and its own timestamp\<close>

lemma webhook_recorded:
  assumes "req_payload_token data = Some (PAYLOAD_TOKEN cfg)" and "is_live s"
      and "req_price data = Some current_price"
      and "with_the_bias data s" and "tracked_ticker data"
  shows "(own_timestamps data (webhook_state cfg br now data s)
            = filter (younger_than_90_minutes now) (own_timestamps data s) @ [now]
          \<and> in_position (webhook_state cfg br now data s) = in_position s)
         \<or> (timestamps_ES (webhook_state cfg br now data s) = []
            \<and> timestamps_NQ (webhook_state cfg br now data s) = []
            \<and> in_position (webhook_state cfg br now data s) \<noteq> [])"
proof -
  let ?s2 = "clean_old_timestamps now (the (append_timestamp (req_ticker data) now s))"
  let ?gate = "(list_ex (younger_than_90_minutes now) (other_timestamps data s)
                \<and> \<not> in_blackout now) \<or> req_bypass data"
  let ?pt = "process_trade cfg br (if req_ticker data = Some ''ES'' then ES else NQ)
                   (req_stop_type data) current_price (if is_bullish s then BUY else SELL) ?s2"
  note w = handle_webhook_alert [OF assms, of br now]
  note rec = recorded_state(2,4) [OF assms(5), of now s]
  show ?thesis
  proof (cases ?gate)
    case True
    from w have st: "webhook_state cfg br now data s = fst (snd ?pt)"
      by (simp only: if_P [OF True] webhook_state_def)
    from process_trade_timestamps [of cfg br "if req_ticker data = Some ''ES'' then ES else NQ"
        "req_stop_type data" current_price "if is_bullish s then BUY else SELL" ?s2]
    show ?thesis
    proof
      assume same: "timestamps_ES (fst (snd ?pt)) = timestamps_ES ?s2
        \<and> timestamps_NQ (fst (snd ?pt)) = timestamps_NQ ?s2
        \<and> in_position (fst (snd ?pt)) = in_position ?s2"
      then have "own_timestamps data (fst (snd ?pt)) = own_timestamps data ?s2"
        by (simp only: own_timestamps_def)
      with same rec st show ?thesis by (simp split del: if_split)
    next
      assume "timestamps_ES (fst (snd ?pt)) = [] \<and> timestamps_NQ (fst (snd ?pt)) = []
        \<and> in_position (fst (snd ?pt)) \<noteq> []"
      with st show ?thesis by (simp split del: if_split)
    qed
  next
    case False
    from w have "snd (handle_webhook cfg br now data s) = snd (None :: error option, ?s2, [])"
      by (simp only: if_not_P [OF False])
    then have "webhook_state cfg br now data s = ?s2"
      by (simp add: webhook_state_def)
    with rec show ?thesis by simp
  qed
qed

lemma webhook_suppressed:
  assumes "req_payload_token data = Some (PAYLOAD_TOKEN cfg)" and "is_live s"
      and "req_price data = Some current_price"
      and "with_the_bias data s" and "tracked_ticker data"
      and "\<not> ((list_ex (younger_than_90_minutes now) (other_timestamps data s)
                \<and> \<not> in_blackout now) \<or> req_bypass data)"
  shows "webhook_effects cfg br now data s = []"
    and "webhook_state cfg br now data s
           = clean_old_timestamps now (the (append_timestamp (req_ticker data) now s))"
proof -
  let ?s2 = "clean_old_timestamps now (the (append_timestamp (req_ticker data) now s))"
  from handle_webhook_alert [OF assms(1-5), of br now]
  have "snd (handle_webhook cfg br now data s) = snd (None :: error option, ?s2, [])"
    by (simp only: if_not_P [OF assms(6)])
  then show "webhook_effects cfg br now data s = []"
    and "webhook_state cfg br now data s = ?s2"
    by (simp_all add: webhook_effects_def webhook_state_def)
qed

lemma other_is_own:
  assumes "tracked_ticker d1" and "tracked_ticker d2" and "req_ticker d1 \<noteq> req_ticker d2"
  shows "other_timestamps d2 s = own_timestamps d1 s"
  using assms by (auto simp: tracked_ticker_def other_timestamps_def own_timestamps_def)

text \<open>
  C8, as the program has it. An authenticated alert in live mode, for one of the two
  tickers and in the direction of the bias, has its timestamp appended to its own
  ticker's list before the check, whatever the check decides: after the call it is
  the last entry of that list, unless an entry was made and the log cleared. The check
  reads the other ticker's list only: with bypass unset and no young timestamp there,
  or inside the blackout window, the call has no effect at all, whatever its own list
  holds. Alerts are handled one at a time. On an empty log, the first of two alerts on
  different tickers submits nothing and leaves its timestamp; the second, handled
  less than 90 minutes later (at the same clock reading, for instance) and outside the
  blackout window, finds that timestamp and submits its entry order.
\<close>

theorem own_alert_never_corroborates:
  assumes "req_payload_token d0 = Some (PAYLOAD_TOKEN cfg)" and "is_live s0"
      and "req_price d0 = Some p0" and "with_the_bias d0 s0" and "tracked_ticker d0"
      and "req_payload_token d1 = Some (PAYLOAD_TOKEN cfg)"
      and "req_payload_token d2 = Some (PAYLOAD_TOKEN cfg)"
      and "is_live s" and "in_position s = []"
      and "timestamps_ES s = []" and "timestamps_NQ s = []"
      and "req_price d1 = Some p1" and "req_price d2 = Some p2"
      and "with_the_bias d1 s" and "with_the_bias d2 s"
      and "tracked_ticker d1" and "tracked_ticker d2" and "req_ticker d1 \<noteq> req_ticker d2"
      and "\<not> req_bypass d1" and "recognised_stop_type (req_stop_type d2)"
      and "younger_than_90_minutes t2 t1" and "\<not> in_blackout t2"
  shows "((own_timestamps d0 (webhook_state cfg br0 t0 d0 s0)
             = filter (younger_than_90_minutes t0) (own_timestamps d0 s0) @ [t0]
           \<and> in_position (webhook_state cfg br0 t0 d0 s0) = in_position s0)
          \<or> (timestamps_ES (webhook_state cfg br0 t0 d0 s0) = []
             \<and> timestamps_NQ (webhook_state cfg br0 t0 d0 s0) = []
             \<and> in_position (webhook_state cfg br0 t0 d0 s0) \<noteq> []))
         \<and> (webhook_effects cfg br0 t0 d0 s0 = [] \<or> req_bypass d0
            \<or> (list_ex (younger_than_90_minutes t0) (other_timestamps d0 s0)
               \<and> \<not> in_blackout t0))
         \<and> \<not> list_ex is_entry_attempt (webhook_effects cfg br1 t1 d1 s)
         \<and> own_timestamps d1 (webhook_state cfg br1 t1 d1 s) = [t1]
         \<and> list_ex is_entry_attempt
             (webhook_effects cfg br2 t2 d2 (webhook_state cfg br1 t1 d1 s))"
proof -
  let ?s1 = "webhook_state cfg br1 t1 d1 s"
  have A: "(own_timestamps d0 (webhook_state cfg br0 t0 d0 s0)
             = filter (younger_than_90_minutes t0) (own_timestamps d0 s0) @ [t0]
           \<and> in_position (webhook_state cfg br0 t0 d0 s0) = in_position s0)
          \<or> (timestamps_ES (webhook_state cfg br0 t0 d0 s0) = []
             \<and> timestamps_NQ (webhook_state cfg br0 t0 d0 s0) = []
             \<and> in_position (webhook_state cfg br0 t0 d0 s0) \<noteq> [])"
    by (rule webhook_recorded [OF assms(1-5)])
  have B: "webhook_effects cfg br0 t0 d0 s0 = [] \<or> req_bypass d0
            \<or> (list_ex (younger_than_90_minutes t0) (other_timestamps d0 s0)
               \<and> \<not> in_blackout t0)"
    using webhook_suppressed(1) [OF assms(1-5), of t0 br0] by blast
  have empty: "other_timestamps d1 s = []" "own_timestamps d1 s = []"
    using assms(10,11) by (simp_all add: other_timestamps_def own_timestamps_def)
  have closed: "\<not> ((list_ex (younger_than_90_minutes t1) (other_timestamps d1 s)
                \<and> \<not> in_blackout t1) \<or> req_bypass d1)"
    using assms(19) empty by simp
  note sup = webhook_suppressed [OF assms(6,8,12,14,16) closed, of br1]
  have C: "\<not> list_ex is_entry_attempt (webhook_effects cfg br1 t1 d1 s)"
    by (simp add: sup(1))
  note rec = recorded_state [OF assms(16), of t1 s]
  have D: "own_timestamps d1 ?s1 = [t1]"
    by (simp add: sup(2) rec(4) empty)
  have s1: "is_live ?s1" "in_position ?s1 = []" "with_the_bias d2 ?s1"
    using assms(8,9,15) by (simp_all add: sup(2) rec(1,2,3) with_the_bias_def)
  have "other_timestamps d2 ?s1 = [t1]"
    using other_is_own [OF assms(16,17,18), of ?s1] D by simp
  with gate_decision [OF assms(7) s1(1) assms(13) s1(3) assms(17) s1(2) assms(20), of br2 t2]
    assms(21,22)
  have E: "list_ex is_entry_attempt (webhook_effects cfg br2 t2 d2 ?s1)"
    by simp
  from A B C D E show ?thesis by blast
qed

theorem own_alert_never_corroborates_witness:
  "req_payload_token (sample_alert ''ES'') = Some (PAYLOAD_TOKEN sample_config)
   \<and> req_payload_token (sample_alert ''NQ'') = Some (PAYLOAD_TOKEN sample_config)
   \<and> is_live sample_state \<and> in_position sample_state = []
   \<and> timestamps_ES sample_state = [] \<and> timestamps_NQ sample_state = []
   \<and> req_price (sample_alert ''ES'') = Some (Dec 500025 (- 2))
   \<and> req_price (sample_alert ''NQ'') = Some (Dec 500025 (- 2))
   \<and> with_the_bias (sample_alert ''ES'') sample_state
   \<and> with_the_bias (sample_alert ''NQ'') sample_state
   \<and> tracked_ticker (sample_alert ''ES'') \<and> tracked_ticker (sample_alert ''NQ'')
   \<and> req_ticker (sample_alert ''ES'') \<noteq> req_ticker (sample_alert ''NQ'')
   \<and> \<not> req_bypass (sample_alert ''ES'')
   \<and> recognised_stop_type (req_stop_type (sample_alert ''NQ''))
   \<and> younger_than_90_minutes sample_time sample_time \<and> \<not> in_blackout sample_time
   \<and> \<not> list_ex is_entry_attempt
         (webhook_effects sample_config accepting_broker sample_time (sample_alert ''ES'')
            sample_state)
   \<and> own_timestamps (sample_alert ''ES'')
        (webhook_state sample_config accepting_broker sample_time (sample_alert ''ES'')
           sample_state) = [sample_time]
   \<and> list_ex is_entry_attempt
        (webhook_effects sample_config accepting_broker sample_time (sample_alert ''NQ'')
           (webhook_state sample_config accepting_broker sample_time (sample_alert ''ES'')
              sample_state))"
proof -
  have ne: "req_ticker (sample_alert ''ES'') \<noteq> req_ticker (sample_alert ''NQ'')"
    by (simp add: sample_alert_facts)
  note r = own_alert_never_corroborates [OF
      sample_alert_facts(1) [of "''ES''"] sample_state_facts(1)
      sample_alert_facts(2) [of "''ES''"] sample_state_facts(6) [of "''ES''"]
      sample_alert_facts(7)
      sample_alert_facts(1) [of "''ES''"] sample_alert_facts(1) [of "''NQ''"]
      sample_state_facts(1,2,4,5)
      sample_alert_facts(2) [of "''ES''"] sample_alert_facts(2) [of "''NQ''"]
      sample_state_facts(6) [of "''ES''"] sample_state_facts(6) [of "''NQ''"]
      sample_alert_facts(7,8) ne
      sample_alert_facts(4) [of "''ES''"] sample_alert_facts(3) [of "''NQ''"]
      sample_time_facts(2,1),
      of accepting_broker sample_time accepting_broker accepting_broker]
  from r have "\<not> list_ex is_entry_attempt
         (webhook_effects sample_config accepting_broker sample_time (sample_alert ''ES'')
            sample_state)
   \<and> own_timestamps (sample_alert ''ES'')
        (webhook_state sample_config accepting_broker sample_time (sample_alert ''ES'')
           sample_state) = [sample_time]
   \<and> list_ex is_entry_attempt
        (webhook_effects sample_config accepting_broker sample_time (sample_alert ''NQ'')
           (webhook_state sample_config accepting_broker sample_time (sample_alert ''ES'')
              sample_state))"
    by blast
  with ne show ?thesis
    by (simp add: sample_alert_facts sample_state_facts sample_time_facts)
qed

text \<open>
  C8 as stated fails where it says that of two alerts arriving together neither is
  actionable: the one handled second is, at the very same clock reading.
\<close>

theorem simultaneous_alerts_counterexample:
  "\<not> (\<not> list_ex is_entry_attempt
          (webhook_effects sample_config accepting_broker sample_time (sample_alert ''ES'')
             sample_state)
      \<and> \<not> list_ex is_entry_attempt
          (webhook_effects sample_config accepting_broker sample_time (sample_alert ''NQ'')
             (webhook_state sample_config accepting_broker sample_time (sample_alert ''ES'')
                sample_state)))"
  by (simp add: webhook_effects_def webhook_state_def handle_webhook_def
      handle_bullish_alert_def process_trade_def
      append_timestamp_def clean_old_timestamps_def clear_timestamps_def
      sample_config_def sample_alert_def sample_time_def accepting_broker_def
      initial_state_def sample_state_def Let_def dt_less_def dt_le_def instant_def
      dt_minus_def timedelta_def replace_time_def microseconds_per_day_def)

subsection \<open>Bracket prices\<close>





lemma dec_val_negate: "dec_val (dec_negate x) = - dec_val x"
  by (simp add: dec_val_def dec_negate_def)








end
